theory Spec2Isabelle
  imports Complex_Main "HOL-Library.Multiset"
begin

section \<open>Common modelling conventions\<close>

text \<open>
  The development embeds two classes of the learning application:
  \<^item> \<open>ProgressTracker\<close> (spaced repetition, activity streak, per-topic progress), and
  \<^item> \<open>ConversationManager\<close> (sending chat messages, the voice-recording lifecycle).

  JavaScript values are idealised as follows. A point in time (\<open>new Date()\<close>,
  \<open>Date.now()\<close>, a stored ISO string) is the number of milliseconds since the epoch, an
  \<open>int\<close>; every \<open>new Date()\<close> evaluated during one method call is the same instant
  \<open>now\<close>, which the model takes as an argument. A JavaScript number that the code uses
  fractionally (\<open>ease_factor\<close>, \<open>quality\<close>) is an exact \<open>real\<close>, so the rounding
  error of IEEE doubles is not part of the model; counters and day intervals are \<open>int\<close>.
  A plain object used as a dictionary is an association list in insertion order, which
  is the order \<open>Object.values\<close> enumerates. Writes to local storage
  (\<open>saveProgress\<close>, \<open>saveStreakData\<close>, \<open>saveSpacedRepetitionData\<close>) persist the
  in-memory state and do not change it; they are left out.
\<close>

type_synonym timestamp = int

text \<open>The error kinds named by the specification. No method of the source raises them.\<close>

datatype error = InvalidInput | NotFound

definition DAY_MS :: int where
  "DAY_MS = 24 * 60 * 60 * 1000"

text \<open>The own property of an object under a key, if it has one.\<close>

definition lookup :: "('k \<times> 'v) list \<Rightarrow> 'k \<Rightarrow> 'v option" where
  "lookup obj k = map_of obj k"

text \<open>
  \<open>obj[k]\<close>: reading a key of a plain object. The read goes through the prototype
  chain: a key that is no own property but names a member of \<open>Object.prototype\<close>
  gives that member, a built-in function (or, for \<open>__proto__\<close>, the prototype
  itself), which is truthy. What a method then writes to the value it has read goes
  to that built-in object and not to the dictionary; the model does not keep such
  writes, nor the names they would add to the prototype.
\<close>

definition Object_prototype_names :: "string list" where
  "Object_prototype_names =
     [''constructor'', ''__defineGetter__'', ''__defineSetter__'', ''hasOwnProperty'',
      ''__lookupGetter__'', ''__lookupSetter__'', ''isPrototypeOf'',
      ''propertyIsEnumerable'', ''toString'', ''valueOf'', ''__proto__'',
      ''toLocaleString'']"

datatype 'v property = Own 'v | Inherited | Undefined

definition property_of :: "(string \<times> 'v) list \<Rightarrow> string \<Rightarrow> 'v property" where
  "property_of obj k =
     (case lookup obj k of
        Some v \<Rightarrow> Own v
      | None \<Rightarrow> if k \<in> set Object_prototype_names then Inherited else Undefined)"

text \<open>\<open>obj[k] = v\<close>: an existing key keeps its place, a new key goes last.\<close>

fun assign :: "'k \<Rightarrow> 'v \<Rightarrow> ('k \<times> 'v) list \<Rightarrow> ('k \<times> 'v) list" where
  "assign k v [] = [(k, v)]"
| "assign k v ((k', v') # kvs) =
     (if k' = k then (k, v) # kvs else (k', v') # assign k v kvs)"

text \<open>\<open>Object.values(obj)\<close>.\<close>

definition Object_values :: "('k \<times> 'v) list \<Rightarrow> 'v list" where
  "Object_values obj = map snd obj"

text \<open>Decimal rendering of a number inside a template string.\<close>

fun decimal :: "nat \<Rightarrow> string" where
  "decimal n =
     (if n < 10 then [''0123456789'' ! n]
      else decimal (n div 10) @ [''0123456789'' ! (n mod 10)])"

declare decimal.simps [simp del]

definition number_toString :: "int \<Rightarrow> string" where
  "number_toString i = (if i < 0 then ''-'' @ decimal (nat (- i)) else decimal (nat i))"

text \<open>\<open>Math.round\<close>: the nearest integer, a tie going up.\<close>

definition Math_round :: "real \<Rightarrow> int" where
  "Math_round x = \<lfloor>x + 1 / 2\<rfloor>"


section \<open>ProgressTracker: data\<close>

text \<open>\<open>CONFIG.SPACED_REPETITION\<close> of the configuration file.\<close>

definition INITIAL_INTERVAL :: int where "INITIAL_INTERVAL = 1"
definition EASY_FACTOR :: real where "EASY_FACTOR = 2.5"
definition MIN_FACTOR :: real where "MIN_FACTOR = 1.3"
definition MIN_INTERVAL :: int where "MIN_INTERVAL = 1"
definition MAX_INTERVAL :: int where "MAX_INTERVAL = 365"

record sr_item =
  item_id :: string
  phrase :: string
  translation :: string
  topic :: string
  interval :: int
  repetitions :: int
  ease_factor :: real
  next_review :: timestamp
  created_at :: timestamp
  last_reviewed :: "timestamp option"

datatype topic_status = not_started | in_progress | completed

record topic_progress =
  status :: topic_status
  phrases_learned :: int
  conversations_completed :: int
  last_practiced :: "timestamp option"
  completion_date :: "timestamp option"
  practice_sessions :: int

text \<open>
  The \<open>data\<close> object of an achievement: \<open>{streak}\<close>, \<open>{topic, date}\<close> or
  \<open>{level, date}\<close>.
\<close>

datatype achievement_data =
    StreakData int
  | TopicData string timestamp
  | LevelData int timestamp

record achievement =
  ach_id :: string
  ach_type :: string
  ach_data :: achievement_data
  earned_at :: timestamp

text \<open>What \<open>Utils.showNotification\<close> was asked to show.\<close>

datatype notification =
    AchievementUnlocked string
  | LevelCongratulations int

record streak_data =
  current_streak :: int
  longest_streak :: int
  last_activity_date :: "timestamp option"
  streak_start_date :: "int option"

text \<open>
  The tracker: the fields of \<open>this.progress\<close> that the modelled methods touch,
  \<open>this.streakData\<close>, and \<open>this.spacedRepetitionData.items\<close>.
\<close>

record progress_tracker =
  level :: int
  topics_completed :: "string list"
  topics_in_progress :: "string list"
  level_progress :: "(string \<times> topic_progress) list"
  conversation_count :: int
  progress_current_streak :: int
  progress_longest_streak :: int
  achievements :: "achievement list"
  streakData :: streak_data
  items :: "(string \<times> sr_item) list"
  notifications :: "notification list"

text \<open>
  The tables of \<open>CONFIG\<close> that the tracker reads. \<open>LEVELS\<close> gives the topics of a
  level (\<open>CONFIG.LEVELS[level]?.topics\<close>, \<open>None\<close> for an unknown level).
  \<open>CONFIG.GAMIFICATION_CONFIG.badges\<close> is not defined by the configuration file at
  hand, so the badge table is a parameter: the display name of the badge of an
  achievement type, if it has one.
\<close>

record config =
  LEVELS :: "int \<Rightarrow> string list option"
  badges :: "string \<Rightarrow> string option"


section \<open>ProgressTracker: spaced repetition\<close>

text \<open>
  \<open>addSpacedRepetitionItem(phrase, translation, topicId)\<close> returns the new id and
  stores the item under it.
\<close>

definition addSpacedRepetitionItem ::
  "progress_tracker \<Rightarrow> string \<Rightarrow> string \<Rightarrow> string \<Rightarrow> timestamp \<Rightarrow> string \<times> progress_tracker" where
  "addSpacedRepetitionItem s phr tr topicId now =
     (let itemId = topicId @ ''_'' @ number_toString now;
          item = \<lparr> item_id = itemId, phrase = phr, translation = tr, topic = topicId,
                   interval = INITIAL_INTERVAL, repetitions = 0,
                   ease_factor = EASY_FACTOR,
                   next_review = now + INITIAL_INTERVAL * DAY_MS,
                   created_at = now, last_reviewed = None \<rparr>
      in (itemId, s\<lparr>items := assign itemId item (items s)\<rparr>))"

text \<open>
  The body of \<open>updateSpacedRepetitionItem\<close> once the item is found: the counter goes
  up, the SM-2 branch sets the interval (and may reset the counter), the ease factor
  and the next review follow. Each assignment reads the fields as the ones before it
  left them, as in the source.
\<close>

definition sm2_interval :: "sr_item \<Rightarrow> real \<Rightarrow> sr_item" where
  "sm2_interval item quality =
     (if quality \<ge> 3 then
        (if repetitions item = 1 then item\<lparr>interval := 1\<rparr>
         else if repetitions item = 2 then item\<lparr>interval := 6\<rparr>
         else item\<lparr>interval := Math_round (real_of_int (interval item) * ease_factor item)\<rparr>)
      else item\<lparr>repetitions := 0, interval := 1\<rparr>)"

definition sm2_ease_factor :: "real \<Rightarrow> real \<Rightarrow> real" where
  "sm2_ease_factor ef quality =
     max MIN_FACTOR (ef + (0.1 - (5 - quality) * (0.08 + (5 - quality) * 0.02)))"

definition review_item :: "sr_item \<Rightarrow> real \<Rightarrow> timestamp \<Rightarrow> sr_item" where
  "review_item item quality now =
     (let i1 = item\<lparr>last_reviewed := Some now, repetitions := repetitions item + 1\<rparr>;
          i2 = sm2_interval i1 quality;
          i3 = i2\<lparr>ease_factor := sm2_ease_factor (ease_factor i2) quality\<rparr>
      in i3\<lparr>next_review := now + interval i3 * DAY_MS\<rparr>)"

text \<open>
  \<open>updateSpacedRepetitionItem(itemId, quality)\<close>. An id for which the store gives
  \<open>undefined\<close> returns at once (\<open>if (!item) return;\<close>); nothing checks
  \<open>quality\<close>. For a name inherited from \<open>Object.prototype\<close> the guard is passed
  and every assignment of the body goes to the built-in object: the store stays as it
  is.
\<close>

definition updateSpacedRepetitionItem ::
  "progress_tracker \<Rightarrow> string \<Rightarrow> real \<Rightarrow> timestamp \<Rightarrow> error + progress_tracker" where
  "updateSpacedRepetitionItem s itemId quality now =
     (case property_of (items s) itemId of
        Undefined \<Rightarrow> Inr s
      | Inherited \<Rightarrow> Inr s
      | Own item \<Rightarrow> Inr (s\<lparr>items := assign itemId (review_item item quality now) (items s)\<rparr>))"

text \<open>
  \<open>getDueSpacedRepetitionItems()\<close>: the items whose review time has come, in the
  order of \<open>sort\<close> with the comparator \<open>a.next_review - b.next_review\<close> (a stable
  sort). The method assigns to nothing of the tracker, so the tracker it leaves is the
  one it was given; the result pairs the array returned with that tracker.
\<close>

definition getDueSpacedRepetitionItems ::
  "progress_tracker \<Rightarrow> timestamp \<Rightarrow> sr_item list \<times> progress_tracker" where
  "getDueSpacedRepetitionItems s now =
     (let dueItems = filter (\<lambda>item. next_review item \<le> now) (Object_values (items s))
      in (sort_key next_review dueItems, s))"

text \<open>
  A test driver: review one item repeatedly and read back its interval and ease factor
  after every call. It stops where a call fails or the item is gone.
\<close>

fun review_trace ::
  "progress_tracker \<Rightarrow> string \<Rightarrow> (real \<times> timestamp) list \<Rightarrow> (int \<times> real) list" where
  "review_trace s itemId [] = []"
| "review_trace s itemId ((quality, now) # rest) =
     (case updateSpacedRepetitionItem s itemId quality now of
        Inl e \<Rightarrow> []
      | Inr s' \<Rightarrow>
          (case lookup (items s') itemId of
             None \<Rightarrow> []
           | Some item \<Rightarrow> (interval item, ease_factor item) # review_trace s' itemId rest))"

section \<open>ProgressTracker: achievements, streak and topics\<close>

text \<open>
  \<open>addAchievement(type, data)\<close>: the achievement is pushed; a notification is shown
  when the type has a badge.
\<close>

definition addAchievement ::
  "config \<Rightarrow> progress_tracker \<Rightarrow> string \<Rightarrow> achievement_data \<Rightarrow> timestamp \<Rightarrow> progress_tracker" where
  "addAchievement cfg s type data now =
     (let a = \<lparr> ach_id = number_toString now, ach_type = type, ach_data = data,
                earned_at = now \<rparr>;
          s1 = s\<lparr>achievements := achievements s @ [a]\<rparr>
      in case badges cfg type of
           None \<Rightarrow> s1
         | Some name \<Rightarrow> s1\<lparr>notifications := notifications s1 @ [AchievementUnlocked name]\<rparr>)"

text \<open>
  \<open>toDateString\<close> names the calendar day of an instant; two instants have the same
  date string exactly when they fall on the same day. The day is the index of the day
  since the epoch (the local time zone is taken to be UTC).
\<close>

definition toDateString :: "timestamp \<Rightarrow> int" where
  "toDateString t = t div DAY_MS"

text \<open>
  \<open>updateActivityStreak()\<close>. \<open>yesterday\<close> is today's date with the day of the
  month set one back.
\<close>

definition updateActivityStreak :: "config \<Rightarrow> progress_tracker \<Rightarrow> timestamp \<Rightarrow> progress_tracker" where
  "updateActivityStreak cfg s now =
     (let today = toDateString now;
          lastActivity = last_activity_date (streakData s)
      in if (case lastActivity of None \<Rightarrow> True | Some l \<Rightarrow> toDateString l \<noteq> today) then
           (let yesterday = today - 1;
                sd = streakData s;
                sd1 = (if (case lastActivity of None \<Rightarrow> False
                                               | Some l \<Rightarrow> toDateString l = yesterday)
                       then sd\<lparr>current_streak := current_streak sd + 1\<rparr>
                       else sd\<lparr>current_streak := 1, streak_start_date := Some today\<rparr>);
                sd2 = sd1\<lparr>last_activity_date := Some now\<rparr>;
                s1 = s\<lparr>streakData := sd2\<rparr>;
                s2 = (if current_streak sd2 > longest_streak sd2 then
                        (let s' = s1\<lparr>streakData := sd2\<lparr>longest_streak := current_streak sd2\<rparr>\<rparr>
                         in if current_streak sd2 = 7 then
                              addAchievement cfg s' ''week_streak'' (StreakData 7) now
                            else if current_streak sd2 = 30 then
                              addAchievement cfg s' ''month_streak'' (StreakData 30) now
                            else s')
                      else s1)
            in s2\<lparr>progress_current_streak := current_streak (streakData s2),
                   progress_longest_streak := longest_streak (streakData s2)\<rparr>)
         else s)"

text \<open>\<open>checkLevelCompletion()\<close>.\<close>

definition checkLevelCompletion :: "config \<Rightarrow> progress_tracker \<Rightarrow> timestamp \<Rightarrow> progress_tracker" where
  "checkLevelCompletion cfg s now =
     (let currentLevel = level s;
          levelTopics = (case LEVELS cfg currentLevel of None \<Rightarrow> [] | Some ts \<Rightarrow> ts);
          levelCompleted = list_all (\<lambda>t. t \<in> set (topics_completed s)) levelTopics
      in if levelCompleted then
           (let s1 = addAchievement cfg s ''level_completed'' (LevelData currentLevel now) now
            in s1\<lparr>notifications := notifications s1 @ [LevelCongratulations currentLevel]\<rparr>)
         else s)"

text \<open>
  The body of \<open>updateConversationProgress\<close> from \<open>const topicProgress\<close> on, for
  a topic whose record is \<open>tp0\<close>: the counters, the date, the start of a topic not
  yet started, the conversation counter and the streak.
\<close>

definition practise_topic ::
  "config \<Rightarrow> progress_tracker \<Rightarrow> string \<Rightarrow> topic_progress \<Rightarrow> timestamp \<Rightarrow> progress_tracker" where
  "practise_topic cfg s topicId tp0 now =
     (let tp1 = tp0\<lparr>conversations_completed := conversations_completed tp0 + 1,
                    last_practiced := Some now,
                    practice_sessions := practice_sessions tp0 + 1\<rparr>;
          starting = (status tp1 = not_started);
          tp2 = (if starting then tp1\<lparr>status := in_progress\<rparr> else tp1);
          s1 = s\<lparr>level_progress := assign topicId tp2 (level_progress s)\<rparr>;
          s2 = (if starting then s1\<lparr>topics_in_progress := topics_in_progress s1 @ [topicId]\<rparr>
                else s1);
          s3 = s2\<lparr>conversation_count := conversation_count s2 + 1\<rparr>
      in updateActivityStreak cfg s3 now)"

text \<open>
  \<open>updateConversationProgress(topicId)\<close>: a topic for which the progress object
  gives \<open>undefined\<close> gets a record, already in progress; a topic not yet started is
  started. For a name inherited from \<open>Object.prototype\<close> no record is made (the
  guard finds the built-in object), the counters and the date are written to that
  object, whose status is never \<open>not_started\<close>, and the tracker gets the
  conversation counter and the streak only.
\<close>

definition updateConversationProgress ::
  "config \<Rightarrow> progress_tracker \<Rightarrow> string \<Rightarrow> timestamp \<Rightarrow> error + progress_tracker" where
  "updateConversationProgress cfg s topicId now =
     (case property_of (level_progress s) topicId of
        Undefined \<Rightarrow>
          Inr (practise_topic cfg s topicId
                 \<lparr> status = in_progress, phrases_learned = 0,
                   conversations_completed = 0, last_practiced = None,
                   completion_date = None, practice_sessions = 0 \<rparr> now)
      | Own tp \<Rightarrow> Inr (practise_topic cfg s topicId tp now)
      | Inherited \<Rightarrow>
          Inr (updateActivityStreak cfg
                 (s\<lparr>conversation_count := conversation_count s + 1\<rparr>) now))"

text \<open>
  The body of \<open>completeTopic\<close> after the status and the date have been written:
  the two lists, the achievement, the check of the level.
\<close>

definition finish_topic ::
  "config \<Rightarrow> progress_tracker \<Rightarrow> string \<Rightarrow> timestamp \<Rightarrow> progress_tracker" where
  "finish_topic cfg s1 topicId now =
     (let s2 = s1\<lparr>topics_in_progress := remove1 topicId (topics_in_progress s1)\<rparr>;
          s3 = (if topicId \<in> set (topics_completed s2) then s2
                else s2\<lparr>topics_completed := topics_completed s2 @ [topicId]\<rparr>);
          s4 = addAchievement cfg s3 ''topic_completed'' (TopicData topicId now) now
      in checkLevelCompletion cfg s4 now)"

text \<open>
  \<open>completeTopic(topicId)\<close>. A topic for which the progress object gives
  \<open>undefined\<close> returns at once (\<open>if (!topicProgress) return;\<close>). For a name
  inherited from \<open>Object.prototype\<close> the guard is passed: the status and the date
  are written to the built-in object, and the rest of the body runs on the tracker.
\<close>

definition completeTopic ::
  "config \<Rightarrow> progress_tracker \<Rightarrow> string \<Rightarrow> timestamp \<Rightarrow> error + progress_tracker" where
  "completeTopic cfg s topicId now =
     (case property_of (level_progress s) topicId of
        Undefined \<Rightarrow> Inr s
      | Inherited \<Rightarrow> Inr (finish_topic cfg s topicId now)
      | Own tp \<Rightarrow>
          (let tp' = tp\<lparr>status := completed, completion_date := Some now\<rparr>;
               s1 = s\<lparr>level_progress := assign topicId tp' (level_progress s)\<rparr>
           in Inr (finish_topic cfg s1 topicId now)))"

text \<open>
  Sequences of topic operations; a failing operation would end the sequence with its
  error.
\<close>

datatype topic_op =
    UpdateConversationProgress string timestamp
  | CompleteTopic string timestamp

fun apply_topic_op :: "config \<Rightarrow> progress_tracker \<Rightarrow> topic_op \<Rightarrow> error + progress_tracker" where
  "apply_topic_op cfg s (UpdateConversationProgress topicId now) =
     updateConversationProgress cfg s topicId now"
| "apply_topic_op cfg s (CompleteTopic topicId now) = completeTopic cfg s topicId now"

fun run_topic_ops :: "config \<Rightarrow> progress_tracker \<Rightarrow> topic_op list \<Rightarrow> error + progress_tracker" where
  "run_topic_ops cfg s [] = Inr s"
| "run_topic_ops cfg s (x # xs) =
     (case apply_topic_op cfg s x of Inl e \<Rightarrow> Inl e | Inr s' \<Rightarrow> run_topic_ops cfg s' xs)"

text \<open>
  The position of a status on the path \<open>not_started\<close>, \<open>in_progress\<close>,
  \<open>completed\<close>. A topic without a record has not been started.
\<close>

fun status_rank :: "topic_status \<Rightarrow> nat" where
  "status_rank not_started = 0"
| "status_rank in_progress = 1"
| "status_rank completed = 2"

definition topic_status_of :: "progress_tracker \<Rightarrow> string \<Rightarrow> topic_status" where
  "topic_status_of s topicId =
     (case lookup (level_progress s) topicId of None \<Rightarrow> not_started | Some tp \<Rightarrow> status tp)"

text \<open>The achievements of one type, and a run of daily activity.\<close>

definition achievements_of_type :: "progress_tracker \<Rightarrow> string \<Rightarrow> achievement list" where
  "achievements_of_type s type = filter (\<lambda>a. ach_type a = type) (achievements s)"

fun record_activities :: "config \<Rightarrow> progress_tracker \<Rightarrow> timestamp list \<Rightarrow> progress_tracker" where
  "record_activities cfg s [] = s"
| "record_activities cfg s (now # rest) = record_activities cfg (updateActivityStreak cfg s now) rest"

section \<open>ConversationManager: data\<close>

text \<open>
  What a \<open>fetch\<close> will answer is an argument of the model. A promise is rejected
  (awaiting it throws the error, of which the model keeps the message), fulfilled, or
  pending for ever. The code sets no timer on any \<open>fetch\<close>: a call that the backend
  never answers stays pending, and a call times out only where the transport gives
  up, which rejects the \<open>fetch\<close>. Every \<open>fetch\<close> is written to a log of the
  requests issued, in order.

  An asynchronous method is given in two ways: its parts between the waits, which can
  be put together with other events in any order, and the whole method run to its end
  with no other event in between.
\<close>

datatype 'a promise = Rejected string | Fulfilled 'a | Pending

text \<open>A response: \<open>response.ok\<close>, \<open>response.status\<close>, and what \<open>response.json()\<close> gives.\<close>

record 'a response =
  resp_ok :: bool
  resp_status :: nat
  resp_json :: "'a promise"

text \<open>The body of a chat answer (\<open>None\<close>: a falsy field, or a \<open>null\<close> body).\<close>

record chat_data =
  ai_response :: "string option"
  farsi_translation :: "string option"

text \<open>The body of an answer of the speech-to-text endpoints.\<close>

record stt_data =
  stt_success :: bool
  stt_recording :: bool
  stt_text :: "string option"
  stt_message :: "string option"

text \<open>What the backend answers to each endpoint.\<close>

record network =
  chat_reply :: "chat_data option response promise"
  stt_start_reply :: "stt_data option response promise"
  stt_stop_reply :: "stt_data option response promise"

datatype request = PostChat string | PostSttStart | PostSttStop

record message =
  sender :: string
  msg_text :: string
  farsiTranslation :: "string option"
  msg_timestamp :: timestamp

text \<open>
  The texts of the status bar, by the place that shows them; a failure reported by the
  endpoint carries the endpoint's own message.
\<close>

datatype status_message =
    StartingRecording
  | RecordingActive
  | StartFailed "string option"
  | StartError
  | NoSpeechDetected
  | StopFailed "string option"
  | StopError
  | WaitForRecordingActive

text \<open>
  The session: the fields of the manager, the parts of the page that the modelled
  methods read or write, the request log, and the errors that left a method uncaught.
  \<open>user_input\<close> is the value of the \<open>user-input\<close> element (\<open>None\<close>: no such
  element); \<open>input_disabled\<close> is its \<open>disabled\<close> flag, which the send and voice
  buttons share; \<open>has_status_bar\<close> says that the elements \<open>system-status\<close> and
  \<open>status-text\<close> are there, \<open>has_status_close\<close> that \<open>status-close\<close> is;
  \<open>recording_lock\<close> is the class \<open>recording-active\<close> on the body;
  \<open>voice_btn_listening\<close> is the class \<open>listening\<close> on the voice button.
\<close>

record session =
  messages :: "message list"
  isListening :: bool
  recordingActive :: bool
  isTutorTyping :: bool
  tutorHasGreeted :: bool
  conversationComplete :: bool
  messageCount :: int
  has_messages_container :: bool
  has_status_bar :: bool
  has_status_close :: bool
  user_input :: "string option"
  input_disabled :: bool
  typing_indicator :: bool
  recording_lock :: bool
  voice_btn_listening :: bool
  system_status :: "(status_message \<times> string) option"
  requests :: "request list"
  uncaught :: "string list"

text \<open>How a piece of code ends: normally, or by throwing an error, in the state it has reached.\<close>

datatype 'a completion = Normal 'a | Throw string 'a

text \<open>
  How a call of an asynchronous method ends: it returns (its promise settles), or it
  waits for ever for an answer, the session as the last part that ran has left it.
\<close>

datatype outcome = Returns session | Waits session

fun state_of :: "outcome \<Rightarrow> session" where
  "state_of (Returns s) = s"
| "state_of (Waits s) = s"

text \<open>An error that no handler catches leaves the method; the session keeps what was done.\<close>

definition leave_uncaught :: "session completion \<Rightarrow> session" where
  "leave_uncaught c =
     (case c of Normal s \<Rightarrow> s | Throw e s \<Rightarrow> s\<lparr>uncaught := uncaught s @ [e]\<rparr>)"


section \<open>ConversationManager: strings\<close>

text \<open>
  A string is the list of the bytes of its UTF-8 form. \<open>String.prototype.trim\<close>
  strips the white space and the line terminators of ECMAScript from both ends: the
  six of ASCII, U+00A0, U+1680, U+2000 to U+200A, U+2028, U+2029, U+202F, U+205F,
  U+3000 and U+FEFF, each by its bytes.
\<close>

definition is_space :: "char \<Rightarrow> bool" where
  "is_space c = (c \<in> set [CHR 0x20, CHR 0x09, CHR 0x0A, CHR 0x0B, CHR 0x0C, CHR 0x0D])"

definition is_space2 :: "char \<Rightarrow> char \<Rightarrow> bool" where
  "is_space2 a b = (a = CHR 0xC2 \<and> b = CHR 0xA0)"

definition is_space3 :: "char \<Rightarrow> char \<Rightarrow> char \<Rightarrow> bool" where
  "is_space3 a b c =
     ((a = CHR 0xE2 \<and> b = CHR 0x80 \<and> 0x80 \<le> (of_char c :: nat) \<and> (of_char c :: nat) \<le> 0x8A)
      \<or> [a, b, c] \<in> set [[CHR 0xE1, CHR 0x9A, CHR 0x80], [CHR 0xE2, CHR 0x80, CHR 0xA8],
                          [CHR 0xE2, CHR 0x80, CHR 0xA9], [CHR 0xE2, CHR 0x80, CHR 0xAF],
                          [CHR 0xE2, CHR 0x81, CHR 0x9F], [CHR 0xE3, CHR 0x80, CHR 0x80],
                          [CHR 0xEF, CHR 0xBB, CHR 0xBF]])"

fun trim_start :: "string \<Rightarrow> string" where
  "trim_start (a # b # c # rest) =
     (if is_space a then trim_start (b # c # rest)
      else if is_space2 a b then trim_start (c # rest)
      else if is_space3 a b c then trim_start rest
      else a # b # c # rest)"
| "trim_start [a, b] =
     (if is_space a then trim_start [b] else if is_space2 a b then [] else [a, b])"
| "trim_start [a] = (if is_space a then [] else [a])"
| "trim_start [] = []"

text \<open>The same from the end, on the reversed string: the bytes of a character come last first.\<close>

fun trim_end_rev :: "string \<Rightarrow> string" where
  "trim_end_rev (c # b # a # rest) =
     (if is_space c then trim_end_rev (b # a # rest)
      else if is_space2 b c then trim_end_rev (a # rest)
      else if is_space3 a b c then trim_end_rev rest
      else c # b # a # rest)"
| "trim_end_rev [c, b] =
     (if is_space c then trim_end_rev [b] else if is_space2 b c then [] else [c, b])"
| "trim_end_rev [c] = (if is_space c then [] else [c])"
| "trim_end_rev [] = []"

definition trim :: "string \<Rightarrow> string" where
  "trim str = rev (trim_end_rev (rev (trim_start str)))"

text \<open>\<open>String.prototype.includes\<close>.\<close>

fun starts_with :: "string \<Rightarrow> string \<Rightarrow> bool" where
  "starts_with str [] = True"
| "starts_with [] (c # cs) = False"
| "starts_with (d # ds) (c # cs) = (d = c \<and> starts_with ds cs)"

fun str_includes :: "string \<Rightarrow> string \<Rightarrow> bool" where
  "str_includes [] sub = (sub = [])"
| "str_includes (c # cs) sub = (starts_with (c # cs) sub \<or> str_includes cs sub)"

text \<open>\<open>String.prototype.toLowerCase\<close>, on the ASCII letters.\<close>

definition toLowerCase :: "string \<Rightarrow> string" where
  "toLowerCase str =
     map (\<lambda>c. if 65 \<le> (of_char c :: nat) \<and> (of_char c :: nat) \<le> 90
               then char_of ((of_char c :: nat) + 32) else c) str"

text \<open>
  The messages that \<open>sendMessage\<close> puts into the chat. The pictographs that open some
  of them are written as their UTF-8 bytes.
\<close>

definition MSG_COULD_NOT_PROCESS :: string where
  "MSG_COULD_NOT_PROCESS =
     ''I'' @ [CHR 0x27] @ ''m sorry, I couldn'' @ [CHR 0x27] @ ''t process that. Please try again.''"

definition MSG_CANNOT_CONNECT :: string where
  "MSG_CANNOT_CONNECT =
     [CHR 0xE2, CHR 0x9D, CHR 0x8C] @
     '' Cannot connect to the AI service. Please make sure the backend server is running.''"

definition MSG_SERVER_ERROR :: string where
  "MSG_SERVER_ERROR =
     [CHR 0xE2, CHR 0x9A, CHR 0xA0, CHR 0xEF, CHR 0xB8, CHR 0x8F] @
     '' Server error occurred. Please try again later.''"

definition MSG_CONNECTION_ERROR :: string where
  "MSG_CONNECTION_ERROR =
     [CHR 0xE2, CHR 0x9D, CHR 0x8C] @
     '' Connection error. Please check your internet connection and try again.''"

definition MSG_CONGRATS :: string where
  "MSG_CONGRATS =
     [CHR 0xF0, CHR 0x9F, CHR 0x8E, CHR 0x89] @
     '' Excellent work! You'' @ [CHR 0x27] @
     ''ve demonstrated great progress in this topic. Your lesson is now complete and your XP has been saved. You can safely leave the conversation.''"


section \<open>ConversationManager: sending a message\<close>

text \<open>
  \<open>showSystemStatus(message, type)\<close>. Without the bar it returns at once. With it
  the message is shown, and the last statement sets the handler of the close button:
  where that button is missing the statement throws a \<open>TypeError\<close>. The timer that
  hides the bar is left out.
\<close>

definition showSystemStatus :: "session \<Rightarrow> status_message \<Rightarrow> string \<Rightarrow> session completion" where
  "showSystemStatus s msg type =
     (if \<not> has_status_bar s then Normal s
      else if has_status_close s then Normal (s\<lparr>system_status := Some (msg, type)\<rparr>)
      else Throw ''TypeError'' (s\<lparr>system_status := Some (msg, type)\<rparr>))"

definition addMessage :: "session \<Rightarrow> string \<Rightarrow> string \<Rightarrow> string option \<Rightarrow> timestamp \<Rightarrow> session" where
  "addMessage s sndr txt farsi now =
     (if \<not> has_messages_container s then s
      else s\<lparr>messages := messages s @
                [\<lparr> sender = sndr, msg_text = txt, farsiTranslation = farsi, msg_timestamp = now \<rparr>]\<rparr>)"

definition showTypingIndicator :: "session \<Rightarrow> session" where
  "showTypingIndicator s =
     (if \<not> has_messages_container s then s
      else s\<lparr>isTutorTyping := True, typing_indicator := True\<rparr>)"

definition removeTypingIndicator :: "session \<Rightarrow> session" where
  "removeTypingIndicator s = s\<lparr>typing_indicator := False, isTutorTyping := False\<rparr>"

definition setInputDisabled :: "session \<Rightarrow> bool \<Rightarrow> session" where
  "setInputDisabled s disabled =
     (case user_input s of None \<Rightarrow> s | Some v \<Rightarrow> s\<lparr>input_disabled := disabled\<rparr>)"

definition showCompletionMessage :: "session \<Rightarrow> timestamp \<Rightarrow> session" where
  "showCompletionMessage s now = addMessage s ''ai'' MSG_CONGRATS None now"

text \<open>
  What awaiting \<open>sendToBackend(message)\<close> gives for an answer of the \<open>fetch\<close>: a
  rejected \<open>fetch\<close> throws, a response that is not \<open>ok\<close> throws the HTTP error with
  its status, otherwise the parsed body is returned; while the \<open>fetch\<close> or the
  parsing is pending, so is the call.
\<close>

definition sendToBackend :: "chat_data option response promise \<Rightarrow> chat_data option promise" where
  "sendToBackend fetched =
     (case fetched of
        Rejected m \<Rightarrow> Rejected m
      | Pending \<Rightarrow> Pending
      | Fulfilled r \<Rightarrow>
          if \<not> resp_ok r then Rejected (''HTTP error! status: '' @ decimal (resp_status r))
          else resp_json r)"

text \<open>
  \<open>sendMessage()\<close> up to the point where it waits for the backend: the guards, the
  user's message, the counter, the typing state, and the request. The second
  component is the message sent, if one was.
\<close>

definition sendMessage_begin :: "session \<Rightarrow> timestamp \<Rightarrow> session \<times> string option" where
  "sendMessage_begin s now =
     (if isTutorTyping s \<or> \<not> tutorHasGreeted s then (s, None)
      else case user_input s of
             None \<Rightarrow> (s, None)
           | Some v \<Rightarrow>
               (let msg = trim v
                in if msg = [] then (s, None)
                   else
                     (let s1 = s\<lparr>user_input := Some []\<rparr>;
                          s2 = addMessage s1 ''user'' msg None now;
                          s3 = s2\<lparr>messageCount := messageCount s2 + 1\<rparr>;
                          s4 = showTypingIndicator s3;
                          s5 = setInputDisabled s4 True
                      in (s5\<lparr>requests := requests s5 @ [PostChat msg]\<rparr>, Some msg))))"

text \<open>The rest of the \<open>try\<close> block of \<open>sendMessage()\<close>, once the backend has answered.\<close>

definition sendMessage_answered :: "session \<Rightarrow> chat_data option \<Rightarrow> timestamp \<Rightarrow> session" where
  "sendMessage_answered s resp now =
     (let s1 = setInputDisabled (removeTypingIndicator s) False
      in case (case resp of None \<Rightarrow> None | Some d \<Rightarrow> ai_response d) of
           Some r \<Rightarrow>
             if r = [] then addMessage s1 ''ai'' MSG_COULD_NOT_PROCESS None now
             else
               (let s2 = addMessage s1 ''ai'' r
                           (case resp of None \<Rightarrow> None | Some d \<Rightarrow> farsi_translation d) now
                in if str_includes r ''LESSON_COMPLETE''
                   then showCompletionMessage (s2\<lparr>conversationComplete := True\<rparr>) now
                   else s2)
         | None \<Rightarrow> addMessage s1 ''ai'' MSG_COULD_NOT_PROCESS None now)"

text \<open>The message that the \<open>catch\<close> block of \<open>sendMessage()\<close> picks for an error.\<close>

definition failure_message :: "string \<Rightarrow> string" where
  "failure_message m =
     (if str_includes m ''Failed to fetch'' then MSG_CANNOT_CONNECT
      else if str_includes m ''HTTP error! status: 500'' then MSG_SERVER_ERROR
      else MSG_CONNECTION_ERROR)"

text \<open>The \<open>catch\<close> block of \<open>sendMessage()\<close>, for an error of message \<open>m\<close>.\<close>

definition sendMessage_failed :: "session \<Rightarrow> string \<Rightarrow> timestamp \<Rightarrow> session" where
  "sendMessage_failed s m now =
     addMessage (setInputDisabled (removeTypingIndicator s) False) ''ai'' (failure_message m)
       None now"

text \<open>\<open>sendMessage()\<close> run to its end.\<close>

definition sendMessage :: "session \<Rightarrow> network \<Rightarrow> timestamp \<Rightarrow> outcome" where
  "sendMessage s net now =
     (case sendMessage_begin s now of
        (s1, None) \<Rightarrow> Returns s1
      | (s1, Some msg) \<Rightarrow>
          (case sendToBackend (chat_reply net) of
             Pending \<Rightarrow> Waits s1
           | Rejected m \<Rightarrow> Returns (sendMessage_failed s1 m now)
           | Fulfilled resp \<Rightarrow> Returns (sendMessage_answered s1 resp now)))"


section \<open>ConversationManager: voice recording\<close>

text \<open>
  What the two waits of a voice method give (\<open>await fetch\<close>, then
  \<open>await response.json()\<close>; the status of the response is not looked at).
\<close>

definition stt_outcome :: "stt_data option response promise \<Rightarrow> stt_data option promise" where
  "stt_outcome fetched =
     (case fetched of
        Rejected m \<Rightarrow> Rejected m
      | Pending \<Rightarrow> Pending
      | Fulfilled r \<Rightarrow> resp_json r)"

text \<open>The \<open>finally\<close> block of \<open>stopVoiceInput\<close>.\<close>

definition reset_recording_ui :: "session \<Rightarrow> session" where
  "reset_recording_ui s =
     s\<lparr>isListening := False, recordingActive := False, recording_lock := False,
       voice_btn_listening := False\<rparr>"

text \<open>
  The \<open>try\<close> block of \<open>stopVoiceInput\<close> after the two waits, for a body that is
  not \<open>null\<close>. A transcript is put into the input and \<open>sendMessage()\<close> is called
  without being awaited: it runs up to its own wait.
\<close>

definition stop_try :: "session \<Rightarrow> stt_data \<Rightarrow> timestamp \<Rightarrow> session completion" where
  "stop_try s d now =
     (if stt_success d \<and>
         (case stt_text d of None \<Rightarrow> False | Some t \<Rightarrow> t \<noteq> [] \<and> trim t \<noteq> [])
      then
        (let t = trim (case stt_text d of None \<Rightarrow> [] | Some t \<Rightarrow> t)
         in if t = ''LEGAL'' then showSystemStatus s NoSpeechDetected ''warning''
            else
              Normal (fst (sendMessage_begin
                             (case user_input s of None \<Rightarrow> s
                              | Some v \<Rightarrow> s\<lparr>user_input := Some t\<rparr>) now)))
      else if stt_success d then showSystemStatus s NoSpeechDetected ''warning''
      else if (case stt_message d of None \<Rightarrow> False
               | Some m \<Rightarrow> m \<noteq> [] \<and> str_includes (toLowerCase m) ''no recording in progress'')
      then Normal s
      else showSystemStatus s (StopFailed (stt_message d)) ''error'')"

text \<open>The \<open>catch\<close> block of \<open>stopVoiceInput\<close>; an error thrown in it leaves the method.\<close>

definition stop_catch :: "session \<Rightarrow> session" where
  "stop_catch s = leave_uncaught (showSystemStatus s StopError ''error'')"

text \<open>
  \<open>stopVoiceInput()\<close>. A session that is not listening returns at once. Otherwise
  the stop request is issued; a rejected request, a body that does not parse, a
  \<open>null\<close> body and an error thrown in the \<open>try\<close> block go to the \<open>catch\<close> block;
  the \<open>finally\<close> block ends every path on which the request is answered.
\<close>

definition stopVoiceInput :: "session \<Rightarrow> network \<Rightarrow> timestamp \<Rightarrow> outcome" where
  "stopVoiceInput s net now =
     (if \<not> isListening s then Returns s
      else
        (let s1 = s\<lparr>requests := requests s @ [PostSttStop]\<rparr>
         in case stt_outcome (stt_stop_reply net) of
              Pending \<Rightarrow> Waits s1
            | Rejected m \<Rightarrow> Returns (reset_recording_ui (stop_catch s1))
            | Fulfilled None \<Rightarrow> Returns (reset_recording_ui (stop_catch s1))
            | Fulfilled (Some d) \<Rightarrow>
                (case stop_try s1 d now of
                   Normal s2 \<Rightarrow> Returns (reset_recording_ui s2)
                 | Throw e s2 \<Rightarrow> Returns (reset_recording_ui (stop_catch s2)))))"

text \<open>
  \<open>startVoiceInput()\<close> up to the point where it waits for the backend. The second
  component says whether the start request was issued.
\<close>

definition startVoiceInput_begin :: "session \<Rightarrow> session \<times> bool" where
  "startVoiceInput_begin s =
     (if isTutorTyping s \<or> \<not> tutorHasGreeted s then (s, False)
      else if isListening s then (s, False)
      else
        (let s1 = s\<lparr>isListening := True, recordingActive := False, recording_lock := True,
                     voice_btn_listening := True\<rparr>
         in case showSystemStatus s1 StartingRecording ''info'' of
              Throw e s2 \<Rightarrow> (s2\<lparr>uncaught := uncaught s2 @ [e]\<rparr>, False)
            | Normal s2 \<Rightarrow> (s2\<lparr>requests := requests s2 @ [PostSttStart]\<rparr>, True)))"

text \<open>
  The \<open>catch\<close> block of \<open>startVoiceInput\<close>: the status, then \<open>stopVoiceInput()\<close>,
  which is called without being awaited and is run to its end here.
\<close>

definition start_catch :: "session \<Rightarrow> network \<Rightarrow> timestamp \<Rightarrow> session" where
  "start_catch s net now =
     (case showSystemStatus s StartError ''error'' of
        Throw e s1 \<Rightarrow> s1\<lparr>uncaught := uncaught s1 @ [e]\<rparr>
      | Normal s1 \<Rightarrow> state_of (stopVoiceInput s1 net now))"

text \<open>
  The rest of \<open>startVoiceInput()\<close>, once the start request has been answered. It
  reads no flag of the session: whatever has happened since the request was issued,
  a recording that has started is marked active.
\<close>

definition startVoiceInput_resume ::
  "session \<Rightarrow> stt_data option promise \<Rightarrow> network \<Rightarrow> timestamp \<Rightarrow> session" where
  "startVoiceInput_resume s answer net now =
     (case answer of
        Pending \<Rightarrow> s
      | Rejected m \<Rightarrow> start_catch s net now
      | Fulfilled None \<Rightarrow> start_catch s net now
      | Fulfilled (Some d) \<Rightarrow>
          if stt_success d \<and> stt_recording d then
            (case showSystemStatus (s\<lparr>recordingActive := True\<rparr>) RecordingActive ''success'' of
               Normal s1 \<Rightarrow> s1
             | Throw e s1 \<Rightarrow> start_catch s1 net now)
          else
            (case showSystemStatus s (StartFailed (stt_message d)) ''error'' of
               Normal s1 \<Rightarrow> state_of (stopVoiceInput s1 net now)
             | Throw e s1 \<Rightarrow> start_catch s1 net now))"

text \<open>\<open>startVoiceInput()\<close> run to its end.\<close>

definition startVoiceInput :: "session \<Rightarrow> network \<Rightarrow> timestamp \<Rightarrow> session" where
  "startVoiceInput s net now =
     (case startVoiceInput_begin s of
        (s1, False) \<Rightarrow> s1
      | (s1, True) \<Rightarrow> startVoiceInput_resume s1 (stt_outcome (stt_start_reply net)) net now)"

text \<open>
  \<open>toggleVoiceInput()\<close>, the handler of a tap on the voice button; the method it
  calls is run to its end.
\<close>

definition toggleVoiceInput :: "session \<Rightarrow> network \<Rightarrow> timestamp \<Rightarrow> session" where
  "toggleVoiceInput s net now =
     (if isTutorTyping s \<or> \<not> tutorHasGreeted s then s
      else if isListening s then
        (if \<not> recordingActive s
         then leave_uncaught (showSystemStatus s WaitForRecordingActive ''warning'')
         else state_of (stopVoiceInput s net now))
      else startVoiceInput s net now)"

text \<open>The manager as the constructor leaves it, on a page that has all its elements.\<close>

definition new_session :: session where
  "new_session =
     \<lparr> messages = [], isListening = False, recordingActive = False, isTutorTyping = False,
       tutorHasGreeted = False, conversationComplete = False, messageCount = 0,
       has_messages_container = True, has_status_bar = True, has_status_close = True,
       user_input = Some [], input_disabled = False, typing_indicator = False,
       recording_lock = False, voice_btn_listening = False, system_status = None,
       requests = [], uncaught = [] \<rparr>"


section \<open>Configuration and sample states\<close>

text \<open>\<open>CONFIG.LEVELS\<close> of the configuration file: the topics of the four levels.\<close>

definition CONFIG_LEVELS :: "int \<Rightarrow> string list option" where
  "CONFIG_LEVELS l =
     (if l = 1 then
        Some [''greetings'', ''family'', ''about_me'', ''numbers'', ''appearance'',
              ''clothes'', ''food'', ''meals'', ''weather'', ''body_parts'',
              ''doctor_conversation'', ''sports'', ''time_activities'',
              ''days_week'', ''transportation'', ''friends'']
      else if l = 2 then
        Some [''hometown'', ''family_relatives'', ''extended_family'', ''all_about_me'',
              ''hobbies'', ''jobs'', ''restaurant'', ''groceries'', ''directions'',
              ''emergency'', ''celebrations'', ''situational'', ''household_items'',
              ''medical_vocabulary'', ''doctor_advanced'', ''school'', ''airport_1'',
              ''airport_2'']
      else if l = 3 then
        Some [''family_hometown_advanced'', ''likes_dislikes'', ''seasons_games'',
              ''appearance_advanced'', ''outdoors'', ''kuala_lumpur_transport'',
              ''food_advanced'', ''eating_out'', ''injury_body'', ''doctor_detailed'',
              ''emotions_1'', ''emotions_2'', ''emotions_3'', ''friends_advanced'',
              ''situational_advanced'', ''time_daily_advanced'', ''addresses'', ''dentist'']
      else if l = 4 then
        Some [''novels_reading'', ''complex_conversations'', ''academic_english'',
              ''professional_communication'', ''advanced_grammar'']
      else None)"

text \<open>The configuration with an empty badge table.\<close>

definition app_config :: config where
  "app_config = \<lparr> LEVELS = CONFIG_LEVELS, badges = (\<lambda>t. None) \<rparr>"

text \<open>A tracker with nothing recorded yet.\<close>

definition empty_tracker :: progress_tracker where
  "empty_tracker =
     \<lparr> level = 1, topics_completed = [], topics_in_progress = [], level_progress = [],
       conversation_count = 0, progress_current_streak = 0, progress_longest_streak = 0,
       achievements = [],
       streakData = \<lparr> current_streak = 0, longest_streak = 0,
                      last_activity_date = None, streak_start_date = None \<rparr>,
       items = [], notifications = [] \<rparr>"

text \<open>A tracker holding one item that has just been created.\<close>

definition one_item_tracker :: progress_tracker where
  "one_item_tracker =
     snd (addSpacedRepetitionItem empty_tracker ''Hello'' ''Salam'' ''greetings'' 1000)"

definition hello_item :: sr_item where
  "hello_item =
     \<lparr> item_id = ''greetings_1000'', phrase = ''Hello'', translation = ''Salam'',
       topic = ''greetings'', interval = 1, repetitions = 0, ease_factor = 2.5,
       next_review = 86401000, created_at = 1000, last_reviewed = None \<rparr>"

text \<open>
  The update of the ease factor in the words of the specification:
  \<open>max(MIN_FACTOR, ease_factor + (0.1 - (5 - quality) * (0.08 + (5 - quality) * 0.02)))\<close>
  with \<open>MIN_FACTOR\<close> 1.3.
\<close>

definition spec_ease_factor :: "real \<Rightarrow> real \<Rightarrow> real" where
  "spec_ease_factor ef quality =
     max 1.3 (ef + (0.1 - (5 - quality) * (0.08 + (5 - quality) * 0.02)))"

text \<open>
  Activity on ten days running, no activity for ten days, then activity on six days
  running (one instant on each day, by its day number).
\<close>

definition ten_days_then_six :: "timestamp list" where
  "ten_days_then_six =
     map (\<lambda>d. d * DAY_MS) [0, 1, 2, 3, 4, 5, 6, 7, 8, 9, 20, 21, 22, 23, 24, 25]"

text \<open>The achievement that a streak milestone adds.\<close>

definition streak_achievement :: "string \<Rightarrow> int \<Rightarrow> timestamp \<Rightarrow> achievement" where
  "streak_achievement type n now =
     \<lparr> ach_id = number_toString now, ach_type = type, ach_data = StreakData n,
       earned_at = now \<rparr>"

text \<open>
  A session after the greeting; one with a message typed; one that has begun to record;
  one whose recording is active.
\<close>

definition greeted_session :: session where
  "greeted_session = new_session\<lparr>tutorHasGreeted := True\<rparr>"


definition starting_session :: session where
  "starting_session =
     new_session\<lparr>tutorHasGreeted := True, isListening := True, recording_lock := True,
                 voice_btn_listening := True\<rparr>"

definition recording_session :: session where
  "recording_session = starting_session\<lparr>recordingActive := True\<rparr>"

text \<open>
  A backend that cannot be reached; one that answers every call with status 500; one
  that answers with status 503; one whose transport gives up after a time; one that
  works (the recording starts, and stops with nothing heard).
\<close>

definition offline :: network where
  "offline =
     \<lparr> chat_reply = Rejected ''Failed to fetch'',
       stt_start_reply = Rejected ''Failed to fetch'',
       stt_stop_reply = Rejected ''Failed to fetch'' \<rparr>"

definition failing_server :: network where
  "failing_server =
     \<lparr> chat_reply = Fulfilled \<lparr> resp_ok = False, resp_status = 500,
                                  resp_json = Rejected ''Unexpected token'' \<rparr>,
       stt_start_reply = Fulfilled \<lparr> resp_ok = False, resp_status = 500,
                                       resp_json = Rejected ''Unexpected token'' \<rparr>,
       stt_stop_reply = Fulfilled \<lparr> resp_ok = False, resp_status = 500,
                                      resp_json = Fulfilled (Some \<lparr> stt_success = False,
                                        stt_recording = False, stt_text = None,
                                        stt_message = Some ''Internal error'' \<rparr>) \<rparr> \<rparr>"



definition backend_up :: network where
  "backend_up =
     \<lparr> chat_reply = Fulfilled \<lparr> resp_ok = True, resp_status = 200,
                                  resp_json = Fulfilled (Some \<lparr> ai_response = Some ''Hi!'',
                                    farsi_translation = None \<rparr>) \<rparr>,
       stt_start_reply = Fulfilled \<lparr> resp_ok = True, resp_status = 200,
                                       resp_json = Fulfilled (Some \<lparr> stt_success = True,
                                         stt_recording = True, stt_text = None,
                                         stt_message = None \<rparr>) \<rparr>,
       stt_stop_reply = Fulfilled \<lparr> resp_ok = True, resp_status = 200,
                                      resp_json = Fulfilled (Some \<lparr> stt_success = True,
                                        stt_recording = False, stt_text = None,
                                        stt_message = None \<rparr>) \<rparr> \<rparr>"

text \<open>
  A start that is overtaken by a stop. The user taps the voice button, and the start
  request is issued; before it is answered the user leaves the conversation, and
  \<open>goBackToDashboard\<close> calls \<open>stopVoiceInput\<close>, whose request is answered first;
  then the answer to the start request arrives.
\<close>

definition overtaken_start :: session where
  "overtaken_start =
     startVoiceInput_resume
       (state_of (stopVoiceInput (fst (startVoiceInput_begin greeted_session)) backend_up 2000))
       (stt_outcome (stt_start_reply backend_up)) backend_up 3000"

text \<open>A tracker in which the topic \<open>greetings\<close> has been completed.\<close>

definition greetings_done :: progress_tracker where
  "greetings_done =
     empty_tracker\<lparr>topics_completed := [''greetings''],
       level_progress :=
         [(''greetings'',
           \<lparr> status = completed, phrases_learned = 3, conversations_completed = 1,
             last_practiced = Some 1000, completion_date = Some 2000,
             practice_sessions = 1 \<rparr>)]\<rparr>"

text \<open>
  What the streak counters and the streak achievements of a tracker have to do with
  each other: the current streak is not above the longest, a milestone achievement is
  there at most once, and only if the longest streak has reached the milestone.
\<close>

definition streak_inv :: "progress_tracker \<Rightarrow> bool" where
  "streak_inv s =
     (current_streak (streakData s) \<le> longest_streak (streakData s)
      \<and> (longest_streak (streakData s) < 7 \<longrightarrow> achievements_of_type s ''week_streak'' = [])
      \<and> length (achievements_of_type s ''week_streak'') \<le> 1
      \<and> (longest_streak (streakData s) < 30 \<longrightarrow> achievements_of_type s ''month_streak'' = [])
      \<and> length (achievements_of_type s ''month_streak'') \<le> 1)"


section \<open>Facts about objects as association lists\<close>

lemma lookup_assign_same: "lookup (assign k v obj) k = Some v"
  by (induction obj) (auto simp: lookup_def)

lemma lookup_assign_other: "k' \<noteq> k \<Longrightarrow> lookup (assign k v obj) k' = lookup obj k'"
  by (induction obj) (auto simp: lookup_def)

lemma property_of_own: "lookup obj k = Some v \<Longrightarrow> property_of obj k = Own v"
  by (simp add: property_of_def)

lemma property_of_not_own:
  "property_of obj k = Inherited \<or> property_of obj k = Undefined \<Longrightarrow> lookup obj k = None"
  by (auto simp: property_of_def split: option.splits if_splits)

lemma property_of_Own_iff: "property_of obj k = Own v \<longleftrightarrow> lookup obj k = Some v"
  by (auto simp: property_of_def split: option.splits)

lemma one_item_tracker_eq:
  "one_item_tracker = empty_tracker\<lparr>items := [(''greetings_1000'', hello_item)]\<rparr>"
  by (simp add: one_item_tracker_def addSpacedRepetitionItem_def empty_tracker_def
      hello_item_def number_toString_def decimal.simps INITIAL_INTERVAL_def EASY_FACTOR_def
      DAY_MS_def Let_def)

lemma lookup_one_item: "lookup (items one_item_tracker) ''greetings_1000'' = Some hello_item"
  by (simp add: one_item_tracker_eq lookup_def)

lemmas review_defs =
  updateSpacedRepetitionItem_def review_item_def sm2_interval_def sm2_ease_factor_def
  Math_round_def MIN_FACTOR_def Let_def property_of_def


section \<open>Spaced repetition: the review of an item\<close>

text \<open>
  The third and the fourth interval of such a run do not hang on the last digits of
  the ease factor: any ease factor within a thousandth of 2.7 takes the interval 6 to
  16, and any within a thousandth of 2.8 takes 16 to 45.
\<close>

lemma third_interval_robust:
  assumes "repetitions item = 2" and "interval item = 6"
    and "\<bar>ease_factor item - 2.7\<bar> \<le> 1 / 1000"
  shows "interval (review_item item 5 now) = 16"
proof -
  have "26 / 10 \<le> ease_factor item" and "ease_factor item \<le> 274 / 100"
    using assms(3) by arith+
  then have "\<lfloor>6 * ease_factor item + 1 / 2\<rfloor> = 16"
    by (intro floor_unique) simp_all
  with assms(1,2) show ?thesis
    by (simp add: review_item_def sm2_interval_def Math_round_def Let_def)
qed

lemma fourth_interval_robust:
  assumes "repetitions item = 3" and "interval item = 16"
    and "\<bar>ease_factor item - 2.8\<bar> \<le> 1 / 1000"
  shows "interval (review_item item 5 now) = 45"
proof -
  have "279 / 100 \<le> ease_factor item" and "ease_factor item \<le> 284 / 100"
    using assms(3) by arith+
  then have "\<lfloor>16 * ease_factor item + 1 / 2\<rfloor> = 45"
    by (intro floor_unique) simp_all
  with assms(1,2) show ?thesis
    by (simp add: review_item_def sm2_interval_def Math_round_def Let_def)
qed

text \<open>
  C1, as the code has it. Four reviews of quality 5 of an item just created give the
  intervals 1, 6, 16, 45, and the ease factor after each review is the
  specification's formula applied to the ease factor before it, from \<open>EASY_FACTOR\<close>
  on. The third interval is the rounded product of 6 and the ease factor that the
  first two reviews have left, not of 6 and \<open>EASY_FACTOR\<close>.
\<close>

theorem scenario_A_trace:
  "map fst (review_trace (snd (addSpacedRepetitionItem s phr tr topicId t0))
              (fst (addSpacedRepetitionItem s phr tr topicId t0))
              [(5, t1), (5, t2), (5, t3), (5, t4)])
     = [1, 6, 16, 45]
   \<and> map snd (review_trace (snd (addSpacedRepetitionItem s phr tr topicId t0))
              (fst (addSpacedRepetitionItem s phr tr topicId t0))
              [(5, t1), (5, t2), (5, t3), (5, t4)])
     = [spec_ease_factor EASY_FACTOR 5,
        spec_ease_factor (spec_ease_factor EASY_FACTOR 5) 5,
        spec_ease_factor (spec_ease_factor (spec_ease_factor EASY_FACTOR 5) 5) 5,
        spec_ease_factor
          (spec_ease_factor (spec_ease_factor (spec_ease_factor EASY_FACTOR 5) 5) 5) 5]"
  by (simp add: addSpacedRepetitionItem_def review_defs lookup_assign_same
      INITIAL_INTERVAL_def EASY_FACTOR_def spec_ease_factor_def)

text \<open>
  C1 as stated fails: the intervals of the four reviews are not
  \<open>[1, 6, 15, round(15 * 2.6)]\<close>.
\<close>

theorem scenario_A_counterexample:
  "map fst (review_trace one_item_tracker ''greetings_1000''
              [(5, 2000), (5, 3000), (5, 4000), (5, 5000)])
     \<noteq> [1, 6, 15, Math_round (15 * 2.6)]"
  by (simp add: one_item_tracker_eq hello_item_def empty_tracker_def lookup_def review_defs)

text \<open>
  C2 on the code: nothing clamps the interval. The sixth review of quality 5 of an
  item just created sets the interval to 393 days, above \<open>MAX_INTERVAL\<close>.
\<close>

theorem interval_exceeds_MAX_INTERVAL:
  "map fst (review_trace one_item_tracker ''greetings_1000''
              [(5, 2000), (5, 3000), (5, 4000), (5, 5000), (5, 6000), (5, 7000)])
     = [1, 6, 16, 45, 131, 393]
   \<and> \<not> (393 \<le> MAX_INTERVAL)"
  by (simp add: one_item_tracker_eq hello_item_def empty_tracker_def lookup_def review_defs
      MAX_INTERVAL_def)

text \<open>
  C5, as the code has it. The quality is not checked. A review with a quality outside
  \<open>[0, 5]\<close> of a stored item returns normally and updates the item by the same rules
  as any other: a quality above 5 counts as a success, a quality below 0 as a failure.
\<close>

theorem quality_out_of_range_is_processed:
  assumes "lookup (items s) itemId = Some item"
    and "quality < 0 \<or> 5 < quality"
  shows "\<exists>s' item'.
           updateSpacedRepetitionItem s itemId quality now = Inr s'
         \<and> lookup (items s') itemId = Some item'
         \<and> last_reviewed item' = Some now
         \<and> (5 < quality \<longrightarrow>
              repetitions item' = repetitions item + 1
            \<and> interval item' =
                (if repetitions item = 0 then 1 else if repetitions item = 1 then 6
                 else Math_round (real_of_int (interval item) * ease_factor item)))
         \<and> (quality < 0 \<longrightarrow> repetitions item' = 0 \<and> interval item' = 1)
         \<and> ease_factor item' = spec_ease_factor (ease_factor item) quality
         \<and> next_review item' = now + interval item' * DAY_MS"
  using assms
  by (auto simp: review_defs lookup_assign_same spec_ease_factor_def)

theorem quality_out_of_range_is_processed_witness:
  "lookup (items one_item_tracker) ''greetings_1000'' = Some hello_item
   \<and> ((6::real) < 0 \<or> 5 < (6::real))
   \<and> (\<exists>s' item'.
           updateSpacedRepetitionItem one_item_tracker ''greetings_1000'' 6 5000 = Inr s'
         \<and> lookup (items s') ''greetings_1000'' = Some item'
         \<and> repetitions item' = 1 \<and> interval item' = 1
         \<and> ease_factor item' = 2.66
         \<and> next_review item' = 86405000)"
proof -
  have h1: "lookup (items one_item_tracker) ''greetings_1000'' = Some hello_item"
    by (rule lookup_one_item)
  have h2: "(6::real) < 0 \<or> 5 < (6::real)"
    by simp
  from quality_out_of_range_is_processed [OF h1 h2, of 5000] h1 h2
  show ?thesis
    by (auto simp: hello_item_def spec_ease_factor_def DAY_MS_def)
qed

text \<open>
  C5 as stated fails: a review of quality 6 does not fail with \<open>InvalidInput\<close>, and it
  changes the item (the ease factor goes from 2.5 to 2.66).
\<close>

theorem quality_out_of_range_counterexample:
  "updateSpacedRepetitionItem one_item_tracker ''greetings_1000'' 6 5000 \<noteq> Inl InvalidInput
   \<and> review_trace one_item_tracker ''greetings_1000'' [(6, 5000)] = [(1, 2.66)]
   \<and> ease_factor hello_item = 2.5"
  by (simp add: one_item_tracker_eq hello_item_def empty_tracker_def lookup_def review_defs)


section \<open>Spaced repetition: the items that are due\<close>

text \<open>
  C3. The due items are exactly the stored items whose \<open>next_review\<close> is not after
  \<open>now\<close> (each as often as it is stored), in ascending order of \<open>next_review\<close>. The
  query leaves the tracker as it was, so asking again at the same \<open>now\<close> gives the
  same answer.
\<close>

theorem due_items_exact_sorted_repeatable:
  "mset (fst (getDueSpacedRepetitionItems s now))
     = mset (filter (\<lambda>item. next_review item \<le> now) (Object_values (items s)))
   \<and> set (fst (getDueSpacedRepetitionItems s now))
     = {item \<in> set (Object_values (items s)). next_review item \<le> now}
   \<and> sorted (map next_review (fst (getDueSpacedRepetitionItems s now)))
   \<and> snd (getDueSpacedRepetitionItems s now) = s
   \<and> getDueSpacedRepetitionItems (snd (getDueSpacedRepetitionItems s now)) now
     = getDueSpacedRepetitionItems s now"
proof -
  have "set (fst (getDueSpacedRepetitionItems s now))
          = {item \<in> set (Object_values (items s)). next_review item \<le> now}"
    by (auto simp: getDueSpacedRepetitionItems_def Let_def)
  then show ?thesis
    by (simp add: getDueSpacedRepetitionItems_def Let_def)
qed


section \<open>Topics: unknown ids and the order of the statuses\<close>

lemma level_progress_addAchievement:
  "level_progress (addAchievement cfg s type d now) = level_progress s"
  by (simp add: addAchievement_def Let_def split: option.split)

lemma level_progress_checkLevelCompletion:
  "level_progress (checkLevelCompletion cfg s now) = level_progress s"
  by (simp add: checkLevelCompletion_def level_progress_addAchievement Let_def)

lemma level_progress_updateActivityStreak:
  "level_progress (updateActivityStreak cfg s now) = level_progress s"
  by (simp add: updateActivityStreak_def addAchievement_def Let_def split: option.split)

lemma level_progress_finish_topic:
  "level_progress (finish_topic cfg s topicId now) = level_progress s"
  by (simp add: finish_topic_def level_progress_checkLevelCompletion
      level_progress_addAchievement Let_def)

lemma level_progress_practise_topic:
  "\<exists>tp. level_progress (practise_topic cfg s topicId tp0 now)
           = assign topicId tp (level_progress s)
        \<and> status tp = (if status tp0 = not_started then in_progress else status tp0)"
proof (cases "status tp0 = not_started")
  case True
  then show ?thesis
    by (intro exI [of _ "tp0\<lparr>conversations_completed := conversations_completed tp0 + 1,
                          last_practiced := Some now,
                          practice_sessions := practice_sessions tp0 + 1,
                          status := in_progress\<rparr>"])
       (simp add: practise_topic_def level_progress_updateActivityStreak Let_def)
next
  case False
  then show ?thesis
    by (intro exI [of _ "tp0\<lparr>conversations_completed := conversations_completed tp0 + 1,
                          last_practiced := Some now,
                          practice_sessions := practice_sessions tp0 + 1\<rparr>"])
       (simp add: practise_topic_def level_progress_updateActivityStreak Let_def)
qed

lemma completeTopic_known:
  assumes "lookup (level_progress s) topicId = Some old"
  shows "\<exists>s'. completeTopic cfg s topicId now = Inr s'
             \<and> level_progress s' =
                 assign topicId (old\<lparr>status := completed, completion_date := Some now\<rparr>)
                   (level_progress s)"
  using assms
  by (simp add: completeTopic_def property_of_own level_progress_finish_topic Let_def)

lemma completeTopic_undefined:
  "property_of (level_progress s) topicId = Undefined \<Longrightarrow>
     completeTopic cfg s topicId now = Inr s"
  by (simp add: completeTopic_def)

lemma completeTopic_not_own:
  assumes "lookup (level_progress s) topicId = None"
    and "completeTopic cfg s topicId now = Inr s'"
  shows "level_progress s' = level_progress s"
  using assms
  by (auto simp: completeTopic_def property_of_def level_progress_finish_topic
      split: if_splits)

text \<open>
  C6, as the code has it. An unknown id is not an error. For a topic id under which
  the progress object gives \<open>undefined\<close> (no record, and not a name that a plain
  object inherits, such as \<open>constructor\<close>, \<open>toString\<close> or \<open>__proto__\<close>),
  \<open>completeTopic\<close> returns normally and leaves the tracker as it was; and so does
  \<open>updateSpacedRepetitionItem\<close> for an item id under which the store gives
  \<open>undefined\<close>.
\<close>

theorem unknown_id_is_ignored:
  "(property_of (level_progress s) topicId = Undefined \<longrightarrow>
      completeTopic cfg s topicId now = Inr s)
   \<and> (property_of (items s) itemId = Undefined \<longrightarrow>
        updateSpacedRepetitionItem s itemId quality now = Inr s)"
  by (simp add: completeTopic_undefined updateSpacedRepetitionItem_def)

theorem unknown_id_is_ignored_witness:
  "property_of (level_progress greetings_done) ''no_such_topic'' = Undefined
   \<and> completeTopic app_config greetings_done ''no_such_topic'' 5000 = Inr greetings_done
   \<and> property_of (items one_item_tracker) ''no_such_item'' = Undefined
   \<and> updateSpacedRepetitionItem one_item_tracker ''no_such_item'' 5 5000
       = Inr one_item_tracker
   \<and> property_of (level_progress empty_tracker) ''family'' = Undefined
   \<and> completeTopic app_config empty_tracker ''family'' 5000 = Inr empty_tracker"
proof -
  have h1: "property_of (level_progress greetings_done) ''no_such_topic'' = Undefined"
    by (simp add: greetings_done_def empty_tracker_def property_of_def lookup_def
        Object_prototype_names_def)
  have h2: "property_of (items one_item_tracker) ''no_such_item'' = Undefined"
    by (simp add: one_item_tracker_eq empty_tracker_def property_of_def lookup_def
        Object_prototype_names_def)
  have h3: "property_of (level_progress empty_tracker) ''family'' = Undefined"
    by (simp add: empty_tracker_def property_of_def lookup_def Object_prototype_names_def)
  from unknown_id_is_ignored
         [of greetings_done "''no_such_topic''" app_config 5000 "''no_such_item''" 5]
       unknown_id_is_ignored
         [of one_item_tracker "''no_such_topic''" app_config 5000 "''no_such_item''" 5]
       unknown_id_is_ignored
         [of empty_tracker "''family''" app_config 5000 "''no_such_item''" 5]
       h1 h2 h3
  show ?thesis
    by simp
qed

text \<open>
  C6 as stated fails: for ids that are not known, neither call fails with
  \<open>NotFound\<close>.
\<close>

theorem unknown_id_counterexample:
  "lookup (level_progress empty_tracker) ''no_such_topic'' = None
   \<and> completeTopic app_config empty_tracker ''no_such_topic'' 5000 \<noteq> Inl NotFound
   \<and> lookup (items empty_tracker) ''no_such_item'' = None
   \<and> updateSpacedRepetitionItem empty_tracker ''no_such_item'' 5 5000 \<noteq> Inl NotFound"
  by (simp add: empty_tracker_def lookup_def property_of_def Object_prototype_names_def
      completeTopic_def updateSpacedRepetitionItem_def)

text \<open>
  Why the names that a plain object inherits are set apart: \<open>completeTopic\<close> for the
  name \<open>constructor\<close>, which has no record, does not fail either, and it does
  change the tracker.
\<close>

lemma completeTopic_inherited_name:
  "lookup (level_progress empty_tracker) ''constructor'' = None
   \<and> (\<exists>s'. completeTopic app_config empty_tracker ''constructor'' 5000 = Inr s'
          \<and> topics_completed s' = [''constructor'']
          \<and> map ach_type (achievements s') = [''topic_completed''])"
  by (simp add: empty_tracker_def lookup_def property_of_def Object_prototype_names_def
      completeTopic_def finish_topic_def addAchievement_def checkLevelCompletion_def
      app_config_def CONFIG_LEVELS_def Let_def)

lemma updateConversationProgress_total:
  "\<exists>s'. updateConversationProgress cfg s topicId now = Inr s'"
  by (simp add: updateConversationProgress_def split: property.split)

lemma completeTopic_total: "\<exists>s'. completeTopic cfg s topicId now = Inr s'"
  by (simp add: completeTopic_def Let_def split: property.split)

lemma updateConversationProgress_level_progress:
  assumes "updateConversationProgress cfg s topicId now = Inr s'"
  shows "level_progress s' = level_progress s \<and> lookup (level_progress s) topicId = None
       \<or> (\<exists>tp. level_progress s' = assign topicId tp (level_progress s)
             \<and> status tp =
                 (case lookup (level_progress s) topicId of
                    None \<Rightarrow> in_progress
                  | Some old \<Rightarrow> if status old = not_started then in_progress else status old))"
proof (cases "property_of (level_progress s) topicId")
  case (Own old)
  then have l: "lookup (level_progress s) topicId = Some old"
    by (simp add: property_of_Own_iff)
  from Own assms have "s' = practise_topic cfg s topicId old now"
    by (simp add: updateConversationProgress_def)
  with level_progress_practise_topic [of cfg s topicId old now] l show ?thesis
    by auto
next
  case Inherited
  then have "lookup (level_progress s) topicId = None"
    by (simp add: property_of_not_own)
  with Inherited assms show ?thesis
    by (auto simp: updateConversationProgress_def level_progress_updateActivityStreak)
next
  case Undefined
  then have l: "lookup (level_progress s) topicId = None"
    by (simp add: property_of_not_own)
  from Undefined assms have
    "s' = practise_topic cfg s topicId
            \<lparr> status = in_progress, phrases_learned = 0,
              conversations_completed = 0, last_practiced = None,
              completion_date = None, practice_sessions = 0 \<rparr> now"
    by (simp add: updateConversationProgress_def)
  with level_progress_practise_topic
         [of cfg s topicId
             "\<lparr> status = in_progress, phrases_learned = 0,
               conversations_completed = 0, last_practiced = None,
               completion_date = None, practice_sessions = 0 \<rparr>" now] l
  show ?thesis
    by auto
qed

lemma updateConversationProgress_rank:
  assumes "updateConversationProgress cfg s topicId now = Inr s'"
  shows "status_rank (topic_status_of s t) \<le> status_rank (topic_status_of s' t)"
proof -
  from updateConversationProgress_level_progress [OF assms]
  consider (same) "level_progress s' = level_progress s"
    | (written) tp where "level_progress s' = assign topicId tp (level_progress s)"
        "status tp =
           (case lookup (level_progress s) topicId of
              None \<Rightarrow> in_progress
            | Some old \<Rightarrow> if status old = not_started then in_progress else status old)"
    by blast
  then show ?thesis
  proof cases
    case same
    then show ?thesis
      by (simp add: topic_status_of_def)
  next
    case written
    show ?thesis
    proof (cases "t = topicId")
      case True
      with written show ?thesis
        by (simp add: topic_status_of_def lookup_assign_same split: option.split)
    next
      case False
      with written show ?thesis
        by (simp add: topic_status_of_def lookup_assign_other)
    qed
  qed
qed

lemma completeTopic_rank:
  assumes "completeTopic cfg s topicId now = Inr s'"
  shows "status_rank (topic_status_of s t) \<le> status_rank (topic_status_of s' t)"
proof (cases "lookup (level_progress s) topicId")
  case None
  with assms completeTopic_not_own [OF None assms] show ?thesis
    by (simp add: topic_status_of_def)
next
  case (Some old)
  from completeTopic_known [OF Some, of cfg now] assms
  have lp: "level_progress s' =
              assign topicId (old\<lparr>status := completed, completion_date := Some now\<rparr>)
                (level_progress s)"
    by simp
  show ?thesis
  proof (cases "t = topicId")
    case True
    with lp show ?thesis
      by (cases "topic_status_of s t") (simp_all add: topic_status_of_def lookup_assign_same)
  next
    case False
    with lp show ?thesis
      by (simp add: topic_status_of_def lookup_assign_other)
  qed
qed

lemma apply_topic_op_rank:
  "apply_topic_op cfg s x = Inr s' \<Longrightarrow>
     status_rank (topic_status_of s t) \<le> status_rank (topic_status_of s' t)"
  by (cases x) (auto dest: updateConversationProgress_rank completeTopic_rank)

lemma apply_topic_op_total: "\<exists>s'. apply_topic_op cfg s x = Inr s'"
  by (cases x) (auto simp: updateConversationProgress_total completeTopic_total)

lemma run_topic_ops_rank:
  "\<exists>s'. run_topic_ops cfg s ops = Inr s'
        \<and> status_rank (topic_status_of s t) \<le> status_rank (topic_status_of s' t)"
proof (induction ops arbitrary: s)
  case Nil
  show ?case by simp
next
  case (Cons x xs)
  obtain s1 where s1: "apply_topic_op cfg s x = Inr s1"
    using apply_topic_op_total by blast
  from Cons.IH [of s1] obtain s' where
    "run_topic_ops cfg s1 xs = Inr s'"
    "status_rank (topic_status_of s1 t) \<le> status_rank (topic_status_of s' t)"
    by blast
  with s1 apply_topic_op_rank [OF s1, of t] show ?case
    by auto
qed

lemma rank_two_completed: "2 \<le> status_rank st \<Longrightarrow> st = completed"
  by (cases st) auto

text \<open>
  C4. Every sequence of \<open>updateConversationProgress\<close> and \<open>completeTopic\<close> calls
  runs to its end, and the status of every topic is then at least as far along the
  path \<open>not_started\<close>, \<open>in_progress\<close>, \<open>completed\<close> as it was at the start (a topic
  without a record counts as not started). So a completed topic stays completed, in
  particular after one more \<open>updateConversationProgress\<close> for it.
\<close>

theorem topic_status_never_regresses:
  "\<exists>s'. run_topic_ops cfg s ops = Inr s'
       \<and> status_rank (topic_status_of s t) \<le> status_rank (topic_status_of s' t)
       \<and> (topic_status_of s t = completed \<longrightarrow>
            topic_status_of s' t = completed
          \<and> (\<exists>s1. updateConversationProgress cfg s t now = Inr s1
                  \<and> topic_status_of s1 t = completed))"
proof -
  obtain s' where run: "run_topic_ops cfg s ops = Inr s'"
    and le: "status_rank (topic_status_of s t) \<le> status_rank (topic_status_of s' t)"
    using run_topic_ops_rank by blast
  obtain s1 where s1: "updateConversationProgress cfg s t now = Inr s1"
    using updateConversationProgress_total by blast
  have le1: "status_rank (topic_status_of s t) \<le> status_rank (topic_status_of s1 t)"
    using updateConversationProgress_rank [OF s1] .
  have "topic_status_of s' t = completed \<and> topic_status_of s1 t = completed"
    if "topic_status_of s t = completed"
    using that le le1 by (simp add: rank_two_completed)
  with run le s1 show ?thesis
    by auto
qed

theorem topic_status_never_regresses_witness:
  "topic_status_of greetings_done ''greetings'' = completed
   \<and> (\<exists>s'. run_topic_ops app_config greetings_done
              [UpdateConversationProgress ''greetings'' 5000, CompleteTopic ''family'' 6000,
               UpdateConversationProgress ''family'' 7000,
               UpdateConversationProgress ''greetings'' 8000] = Inr s'
          \<and> topic_status_of s' ''greetings'' = completed)
   \<and> (\<exists>s1. updateConversationProgress app_config greetings_done ''greetings'' 9000 = Inr s1
          \<and> topic_status_of s1 ''greetings'' = completed)"
proof -
  have h: "topic_status_of greetings_done ''greetings'' = completed"
    by (simp add: topic_status_of_def greetings_done_def lookup_def)
  from topic_status_never_regresses
         [of app_config greetings_done
             "[UpdateConversationProgress ''greetings'' 5000, CompleteTopic ''family'' 6000,
               UpdateConversationProgress ''family'' 7000,
               UpdateConversationProgress ''greetings'' 8000]"
             "''greetings''" 9000] h
  show ?thesis
    by auto
qed


section \<open>The activity streak and its milestones\<close>

lemma achievements_addAchievement:
  "achievements (addAchievement cfg s type d now)
     = achievements s @
         [\<lparr> ach_id = number_toString now, ach_type = type, ach_data = d, earned_at = now \<rparr>]"
  by (simp add: addAchievement_def Let_def split: option.split)

lemma streakData_addAchievement:
  "streakData (addAchievement cfg s type d now) = streakData s"
  by (simp add: addAchievement_def Let_def split: option.split)

lemma streak_achievements_of_call:
  "achievements (updateActivityStreak cfg s now) = achievements s @
     (if current_streak (streakData s) < current_streak (streakData (updateActivityStreak cfg s now))
         \<and> longest_streak (streakData s) < current_streak (streakData (updateActivityStreak cfg s now))
         \<and> current_streak (streakData (updateActivityStreak cfg s now)) = 7
      then [streak_achievement ''week_streak'' 7 now]
      else if current_streak (streakData s) < current_streak (streakData (updateActivityStreak cfg s now))
         \<and> longest_streak (streakData s) < current_streak (streakData (updateActivityStreak cfg s now))
         \<and> current_streak (streakData (updateActivityStreak cfg s now)) = 30
      then [streak_achievement ''month_streak'' 30 now]
      else [])"
  by (simp add: updateActivityStreak_def Let_def achievements_addAchievement
      streakData_addAchievement streak_achievement_def split: option.split)

lemma streak_inv_step: "streak_inv s \<Longrightarrow> streak_inv (updateActivityStreak cfg s now)"
  unfolding streak_inv_def achievements_of_type_def
  by (auto simp: updateActivityStreak_def Let_def achievements_addAchievement
      streakData_addAchievement split: option.split)

lemma streak_inv_run: "streak_inv s \<Longrightarrow> streak_inv (record_activities cfg s ts)"
  by (induction ts arbitrary: s) (simp_all add: streak_inv_step)

lemma streak_inv_empty: "streak_inv empty_tracker"
  by (simp add: streak_inv_def empty_tracker_def achievements_of_type_def)

text \<open>
  C7, as the code has it. A call of \<open>updateActivityStreak\<close> adds the week-streak
  (month-streak) achievement exactly when it raises \<open>current_streak\<close> to 7 (to 30)
  and that is more than the longest streak so far; any other call adds no
  achievement. Over any run of calls on a tracker that starts without a streak, each of
  the two achievements is added at most once.
\<close>

theorem streak_milestone_emission:
  "achievements (updateActivityStreak cfg s now) = achievements s @
     (if current_streak (streakData s) < current_streak (streakData (updateActivityStreak cfg s now))
         \<and> longest_streak (streakData s) < current_streak (streakData (updateActivityStreak cfg s now))
         \<and> current_streak (streakData (updateActivityStreak cfg s now)) = 7
      then [streak_achievement ''week_streak'' 7 now]
      else if current_streak (streakData s) < current_streak (streakData (updateActivityStreak cfg s now))
         \<and> longest_streak (streakData s) < current_streak (streakData (updateActivityStreak cfg s now))
         \<and> current_streak (streakData (updateActivityStreak cfg s now)) = 30
      then [streak_achievement ''month_streak'' 30 now]
      else [])
   \<and> length (achievements_of_type (record_activities cfg empty_tracker ts) ''week_streak'') \<le> 1
   \<and> length (achievements_of_type (record_activities cfg empty_tracker ts) ''month_streak'') \<le> 1"
proof -
  have "streak_inv (record_activities cfg empty_tracker ts)"
    by (rule streak_inv_run [OF streak_inv_empty])
  then have
    "length (achievements_of_type (record_activities cfg empty_tracker ts) ''week_streak'') \<le> 1"
    "length (achievements_of_type (record_activities cfg empty_tracker ts) ''month_streak'') \<le> 1"
    by (simp_all add: streak_inv_def)
  with streak_achievements_of_call [of cfg s now] show ?thesis
    by blast
qed

text \<open>
  C7 as stated fails. After ten days of activity, a break, and six more days, the
  activity of the next day raises \<open>current_streak\<close> from 6 to 7, and no achievement
  is added: the longest streak is 10.
\<close>

theorem streak_milestone_counterexample:
  "current_streak (streakData (record_activities app_config empty_tracker ten_days_then_six)) = 6
   \<and> longest_streak (streakData (record_activities app_config empty_tracker ten_days_then_six)) = 10
   \<and> current_streak (streakData
        (updateActivityStreak app_config
           (record_activities app_config empty_tracker ten_days_then_six) (26 * DAY_MS))) = 7
   \<and> achievements
        (updateActivityStreak app_config
           (record_activities app_config empty_tracker ten_days_then_six) (26 * DAY_MS))
     = achievements (record_activities app_config empty_tracker ten_days_then_six)"
  by (simp add: ten_days_then_six_def empty_tracker_def app_config_def updateActivityStreak_def
      Let_def addAchievement_def toDateString_def DAY_MS_def)


section \<open>Facts about strings\<close>

















section \<open>A chat message whose remote call fails\<close>

lemmas page_defs =
  addMessage_def showTypingIndicator_def removeTypingIndicator_def setInputDisabled_def
  showCompletionMessage_def




lemma sendMessage_begin_sends:
  assumes "\<not> isTutorTyping s" and "tutorHasGreeted s" and "user_input s = Some v"
    and "trim v \<noteq> []" and "has_messages_container s"
  shows "sendMessage_begin s now =
           (s\<lparr>user_input := Some [],
              messages := messages s @
                [\<lparr> sender = ''user'', msg_text = trim v, farsiTranslation = None,
                   msg_timestamp = now \<rparr>],
              messageCount := messageCount s + 1,
              isTutorTyping := True, typing_indicator := True,
              input_disabled := True,
              requests := requests s @ [PostChat (trim v)]\<rparr>, Some (trim v))"
  using assms by (simp add: sendMessage_begin_def page_defs Let_def)

text \<open>
  A call that is never answered has not failed: \<open>sendMessage\<close> keeps waiting, with
  the input disabled, and no timer of the code ends the wait.
\<close>

lemma sendMessage_unanswered:
  assumes "\<not> isTutorTyping s" and "tutorHasGreeted s" and "user_input s = Some v"
    and "trim v \<noteq> []" and "has_messages_container s"
    and "sendToBackend (chat_reply net) = Pending"
  shows "sendMessage s net now = Waits (fst (sendMessage_begin s now))
       \<and> input_disabled (fst (sendMessage_begin s now))"
  using assms by (simp add: sendMessage_def sendMessage_begin_sends)




section \<open>The voice recording\<close>

lemma flags_leave_uncaught_status:
  "requests (leave_uncaught (showSystemStatus s msg type)) = requests s
   \<and> isListening (leave_uncaught (showSystemStatus s msg type)) = isListening s
   \<and> recordingActive (leave_uncaught (showSystemStatus s msg type)) = recordingActive s
   \<and> recording_lock (leave_uncaught (showSystemStatus s msg type)) = recording_lock s
   \<and> messages (leave_uncaught (showSystemStatus s msg type)) = messages s"
  by (simp add: showSystemStatus_def leave_uncaught_def)

text \<open>
  C9. While the session is listening and the recording has not become active, a tap
  on the voice button issues no request (so none to the stop endpoint) and leaves the
  session listening, the recording not active, the page locked as it was.
\<close>

theorem early_stop_is_rejected:
  assumes "isListening s" and "\<not> recordingActive s"
  shows "requests (toggleVoiceInput s net now) = requests s
       \<and> isListening (toggleVoiceInput s net now)
       \<and> \<not> recordingActive (toggleVoiceInput s net now)
       \<and> recording_lock (toggleVoiceInput s net now) = recording_lock s
       \<and> messages (toggleVoiceInput s net now) = messages s"
  using assms flags_leave_uncaught_status [of s WaitForRecordingActive "''warning''"]
  by (simp add: toggleVoiceInput_def)

theorem early_stop_is_rejected_witness:
  "isListening starting_session \<and> \<not> recordingActive starting_session
   \<and> requests (toggleVoiceInput starting_session offline 5000) = []
   \<and> isListening (toggleVoiceInput starting_session offline 5000)
   \<and> \<not> recordingActive (toggleVoiceInput starting_session offline 5000)
   \<and> system_status (toggleVoiceInput starting_session offline 5000)
       = Some (WaitForRecordingActive, ''warning'')"
proof -
  have h1: "isListening starting_session" and h2: "\<not> recordingActive starting_session"
    by (simp_all add: starting_session_def new_session_def)
  have r: "requests starting_session = []"
    by (simp add: starting_session_def new_session_def)
  have st: "system_status (toggleVoiceInput starting_session offline 5000)
              = Some (WaitForRecordingActive, ''warning'')"
    by (simp add: toggleVoiceInput_def showSystemStatus_def leave_uncaught_def
        starting_session_def new_session_def)
  from early_stop_is_rejected [OF h1 h2, of offline 5000] h1 h2 r st
  show ?thesis
    by simp
qed

lemma reset_recording_ui_flags:
  "\<not> isListening (reset_recording_ui s) \<and> \<not> recordingActive (reset_recording_ui s)
   \<and> \<not> recording_lock (reset_recording_ui s)"
  by (simp add: reset_recording_ui_def)

lemma stopVoiceInput_answered:
  assumes "isListening s" and "stt_outcome (stt_stop_reply net) \<noteq> Pending"
  shows "\<exists>s2. stopVoiceInput s net now = Returns (reset_recording_ui s2)"
  using assms
  by (auto simp: stopVoiceInput_def Let_def split: promise.split option.split completion.split)

text \<open>
  A stop request that is never answered: the method waits for ever, the \<open>finally\<close>
  block is not reached, and the session is still listening.
\<close>

lemma stopVoiceInput_unanswered:
  assumes "isListening s" and "stt_outcome (stt_stop_reply net) = Pending"
  shows "\<exists>s1. stopVoiceInput s net now = Waits s1 \<and> isListening s1"
  using assms by (simp add: stopVoiceInput_def Let_def)

text \<open>
  C10, as the code has it. A call of \<open>stopVoiceInput\<close> on a session that is
  listening, whose stop request is answered in any way (the request is rejected, the
  body does not parse or is \<open>null\<close>, the endpoint reports a failure, or it
  succeeds), returns, and the session is then not listening, the recording not
  active and the page not locked. A call on a session that is not listening returns
  at once and changes nothing, whatever the other two flags are.
\<close>

theorem stopVoiceInput_resets_when_listening:
  "(isListening s \<and> stt_outcome (stt_stop_reply net) \<noteq> Pending \<longrightarrow>
      (\<exists>s'. stopVoiceInput s net now = Returns s'
           \<and> \<not> isListening s' \<and> \<not> recordingActive s' \<and> \<not> recording_lock s'))
   \<and> (\<not> isListening s \<longrightarrow> stopVoiceInput s net now = Returns s)"
proof -
  have "\<exists>s'. stopVoiceInput s net now = Returns s'
           \<and> \<not> isListening s' \<and> \<not> recordingActive s' \<and> \<not> recording_lock s'"
    if "isListening s" "stt_outcome (stt_stop_reply net) \<noteq> Pending"
    using stopVoiceInput_answered [OF that, of now] reset_recording_ui_flags by blast
  moreover have "stopVoiceInput s net now = Returns s" if "\<not> isListening s"
    using that by (simp add: stopVoiceInput_def)
  ultimately show ?thesis
    by blast
qed

theorem stopVoiceInput_resets_when_listening_witness:
  "isListening recording_session \<and> recordingActive recording_session
   \<and> recording_lock recording_session
   \<and> stt_outcome (stt_stop_reply offline) \<noteq> Pending
   \<and> (\<exists>s'. stopVoiceInput recording_session offline 5000 = Returns s'
          \<and> \<not> isListening s' \<and> \<not> recordingActive s' \<and> \<not> recording_lock s')
   \<and> stt_outcome (stt_stop_reply failing_server) \<noteq> Pending
   \<and> (\<exists>s'. stopVoiceInput recording_session failing_server 5000 = Returns s'
          \<and> \<not> isListening s' \<and> \<not> recordingActive s' \<and> \<not> recording_lock s')
   \<and> \<not> isListening greeted_session
   \<and> stopVoiceInput greeted_session offline 5000 = Returns greeted_session"
proof -
  have f: "isListening recording_session \<and> recordingActive recording_session
           \<and> recording_lock recording_session"
    by (simp add: recording_session_def starting_session_def new_session_def)
  have a: "stt_outcome (stt_stop_reply offline) \<noteq> Pending"
    by (simp add: stt_outcome_def offline_def)
  have b: "stt_outcome (stt_stop_reply failing_server) \<noteq> Pending"
    by (simp add: stt_outcome_def failing_server_def)
  have g: "\<not> isListening greeted_session"
    by (simp add: greeted_session_def new_session_def)
  from stopVoiceInput_resets_when_listening [of recording_session offline 5000]
       stopVoiceInput_resets_when_listening [of recording_session failing_server 5000]
       stopVoiceInput_resets_when_listening [of greeted_session offline 5000]
       f a b g
  show ?thesis
    by blast
qed

text \<open>
  C10 as stated fails. A start request is overtaken by the stop that leaving the
  conversation issues: the stop returns and clears the flags, then the answer to the
  start request marks the recording active, while the session is not listening. A
  further call of \<open>stopVoiceInput\<close> returns at once, and after it the recording is
  still marked active.
\<close>

theorem stopVoiceInput_counterexample:
  "stopVoiceInput overtaken_start backend_up 4000 = Returns overtaken_start
   \<and> recordingActive overtaken_start
   \<and> \<not> isListening overtaken_start
   \<and> requests overtaken_start = [PostSttStart, PostSttStop]"
  by (simp add: overtaken_start_def greeted_session_def new_session_def backend_up_def
      startVoiceInput_begin_def startVoiceInput_resume_def stopVoiceInput_def stop_try_def
      stt_outcome_def showSystemStatus_def reset_recording_ui_def Let_def)

end
